theory Spec2Isabelle
  imports Complex_Main "HOL-Library.Sublist"
begin

section \<open>Text\<close>

text \<open>
  Python's \<open>str\<close> is a sequence of code points. A text is modelled as a \<open>string\<close>, every
  \<open>char\<close> standing for one code point below 256 (Latin-1). The character classes below
  are the ones Python's \<open>re\<close> module and \<open>str\<close> methods use on that range.
\<close>

definition is_space :: "char \<Rightarrow> bool" where
  \<comment> \<open>\<open>\s\<close> of a \<open>str\<close> pattern, and what \<open>str.strip()\<close> removes\<close>
  "is_space c = (let n = (of_char c :: nat) in (9 \<le> n \<and> n \<le> 13) \<or> (28 \<le> n \<and> n \<le> 32) \<or> n = 133 \<or> n = 160)"

definition is_digit :: "char \<Rightarrow> bool" where
  \<comment> \<open>\<open>\d\<close>\<close>
  "is_digit c = (let n = (of_char c :: nat) in 48 \<le> n \<and> n \<le> 57)"

definition is_word :: "char \<Rightarrow> bool" where
  \<comment> \<open>\<open>\w\<close>: alphanumeric code points and the underscore\<close>
  "is_word c = (let n = (of_char c :: nat) in
     (48 \<le> n \<and> n \<le> 57) \<or> (65 \<le> n \<and> n \<le> 90) \<or> n = 95 \<or> (97 \<le> n \<and> n \<le> 122) \<or>
     n = 170 \<or> n = 178 \<or> n = 179 \<or> n = 181 \<or> n = 185 \<or> n = 186 \<or> (188 \<le> n \<and> n \<le> 190) \<or>
     (192 \<le> n \<and> n \<le> 214) \<or> (216 \<le> n \<and> n \<le> 246) \<or> (248 \<le> n \<and> n \<le> 255))"

definition lower_char :: "char \<Rightarrow> char" where
  "lower_char c = (let n = (of_char c :: nat) in
     if (65 \<le> n \<and> n \<le> 90) \<or> (192 \<le> n \<and> n \<le> 214) \<or> (216 \<le> n \<and> n \<le> 222)
     then char_of (n + 32) else c)"

definition lower :: "string \<Rightarrow> string" where
  \<comment> \<open>\<open>str.lower()\<close>\<close>
  "lower s = map lower_char s"

fun contains :: "string \<Rightarrow> string \<Rightarrow> bool" where
  \<comment> \<open>\<open>sub in s\<close>\<close>
  "contains sub [] = (sub = [])"
| "contains sub (c # cs) = (prefix sub (c # cs) \<or> contains sub cs)"

definition strip :: "string \<Rightarrow> string" where
  \<comment> \<open>\<open>str.strip()\<close>\<close>
  "strip s = rev (dropWhile is_space (rev (dropWhile is_space s)))"

section \<open>Regular expressions as Python's \<open>re\<close> matches them\<close>

datatype cclass =
    Lit char        \<comment> \<open>a literal character\<close>
  | Space           \<comment> \<open>\<open>\s\<close>\<close>
  | Word            \<comment> \<open>\<open>\w\<close>\<close>
  | Digit           \<comment> \<open>\<open>\d\<close>\<close>
  | Dot             \<comment> \<open>\<open>.\<close> without \<open>re.DOTALL\<close>: anything but a newline\<close>
  | AnyChar         \<comment> \<open>\<open>.\<close> under \<open>re.DOTALL\<close>\<close>
  | NotChar char    \<comment> \<open>\<open>[^c]\<close>\<close>

fun in_class :: "cclass \<Rightarrow> char \<Rightarrow> bool" where
  "in_class (Lit a) c = (c = a)"
| "in_class Space c = is_space c"
| "in_class Word c = is_word c"
| "in_class Digit c = is_digit c"
| "in_class Dot c = (c \<noteq> CHR 0x0A)"
| "in_class AnyChar c = True"
| "in_class (NotChar a) c = (c \<noteq> a)"

datatype regex =
    Eps                   \<comment> \<open>the empty pattern\<close>
  | Atom cclass           \<comment> \<open>one character of a class\<close>
  | Seq regex regex       \<comment> \<open>\<open>pq\<close>\<close>
  | Alt regex regex       \<comment> \<open>\<open>p|q\<close>, \<open>p\<close> tried first\<close>
  | Star regex            \<comment> \<open>\<open>p*\<close>, greedy\<close>
  | LazyStar regex        \<comment> \<open>\<open>p*?\<close>, shortest first\<close>
  | Group nat regex       \<comment> \<open>\<open>(p)\<close>, capturing group number \<open>n\<close>\<close>

definition Plus :: "regex \<Rightarrow> regex" where
  \<comment> \<open>\<open>p+\<close>\<close>
  "Plus p = Seq p (Star p)"

definition Opt :: "regex \<Rightarrow> regex" where
  \<comment> \<open>\<open>p?\<close>, greedy\<close>
  "Opt p = Alt p Eps"

fun lits :: "string \<Rightarrow> regex" where
  "lits [] = Eps"
| "lits (c # cs) = Seq (Atom (Lit c)) (lits cs)"

fun seqs :: "regex list \<Rightarrow> regex" where
  "seqs [] = Eps"
| "seqs (p # ps) = Seq p (seqs ps)"

type_synonym groups = "(nat \<times> string) list"

text \<open>
  \<open>rmatch p s g\<close> lists every way the backtracking matcher can match \<open>p\<close> at the start of
  \<open>s\<close>, in the order in which it tries them: each entry is the text left after the match
  and the groups captured on the way. The match \<open>re\<close> reports is the first entry. A
  repetition goes round again only after its body has consumed a character.
\<close>

function rmatch :: "regex \<Rightarrow> string \<Rightarrow> groups \<Rightarrow> (string \<times> groups) list" where
  "rmatch Eps s g = [(s, g)]"
| "rmatch (Atom a) s g = (case s of [] \<Rightarrow> [] | c # cs \<Rightarrow> if in_class a c then [(cs, g)] else [])"
| "rmatch (Seq p q) s g = concat (map (\<lambda>m. rmatch q (fst m) (snd m)) (rmatch p s g))"
| "rmatch (Alt p q) s g = rmatch p s g @ rmatch q s g"
| "rmatch (Star p) s g =
     concat (map (\<lambda>m. if length (fst m) < length s then rmatch (Star p) (fst m) (snd m) else [])
                 (rmatch p s g)) @ [(s, g)]"
| "rmatch (LazyStar p) s g =
     (s, g) # concat (map (\<lambda>m. if length (fst m) < length s then rmatch (LazyStar p) (fst m) (snd m) else [])
                          (rmatch p s g))"
| "rmatch (Group n p) s g =
     map (\<lambda>m. (fst m, (n, take (length s - length (fst m)) s) # snd m)) (rmatch p s g)"
  by pat_completeness auto
termination
  by (relation "measures [\<lambda>(p, s, g). size p, \<lambda>(p, s, g). length s]") auto

record rx_match =
  m_text :: string      \<comment> \<open>\<open>group(0)\<close>\<close>
  m_groups :: groups
  m_rest :: string      \<comment> \<open>the text after the match\<close>

definition group :: "rx_match \<Rightarrow> nat \<Rightarrow> string option" where
  \<comment> \<open>\<open>match.group(n)\<close>; \<open>None\<close> when the group took no part in the match\<close>
  "group m n = map_of (m_groups m) n"

definition match_at :: "regex \<Rightarrow> string \<Rightarrow> rx_match option" where
  "match_at p s = (case rmatch p s [] of
       [] \<Rightarrow> None
     | m # _ \<Rightarrow> Some \<lparr>m_text = take (length s - length (fst m)) s, m_groups = snd m, m_rest = fst m\<rparr>)"

fun re_search :: "regex \<Rightarrow> string \<Rightarrow> rx_match option" where
  \<comment> \<open>\<open>re.search\<close>: the match at the leftmost position that has one\<close>
  "re_search p [] = match_at p []"
| "re_search p (c # cs) = (case match_at p (c # cs) of Some m \<Rightarrow> Some m | None \<Rightarrow> re_search p cs)"

text \<open>
  \<open>re.finditer\<close>: the matches from left to right, none overlapping. The scan resumes
  after a match, or one character on where there is no match. No pattern of this
  program matches the empty text; after an empty match the scan moves one character on.
\<close>

function re_finditer :: "regex \<Rightarrow> string \<Rightarrow> rx_match list" where
  "re_finditer p s = (case match_at p s of
       None \<Rightarrow> (case s of [] \<Rightarrow> [] | _ # cs \<Rightarrow> re_finditer p cs)
     | Some m \<Rightarrow> m # (if length (m_rest m) < length s then re_finditer p (m_rest m)
                      else (case s of [] \<Rightarrow> [] | _ # cs \<Rightarrow> re_finditer p cs)))"
  by pat_completeness auto
termination
  by (relation "measure (\<lambda>(p, s). length s)") auto

declare re_finditer.simps [simp del]

definition re_findall :: "regex \<Rightarrow> string \<Rightarrow> string list" where
  \<comment> \<open>\<open>re.findall\<close> of a pattern without groups: the matched texts\<close>
  "re_findall p s = map m_text (re_finditer p s)"

section \<open>Values of reports\<close>

text \<open>
  The metrics and summaries of a report are dictionaries from keys to numbers and
  booleans; they are association lists in the order the code writes the keys. A Python
  \<open>float\<close> is modelled as the real number it stands for. Products, sums and means are
  exact. The quotient of the code coverage, which a double seldom holds exactly, is
  rounded as Python rounds it (\<open>binary64\<close>, below).
\<close>

datatype pyval = PBool bool | PInt int | PFloat real

record 'e report =
  summary :: "(string \<times> pyval) list"
  details :: "(string \<times> 'e) list"   \<comment> \<open>key \<open>optimizations\<close>, respectively \<open>verifications\<close>\<close>

function str_nat :: "nat \<Rightarrow> string" where
  \<comment> \<open>\<open>str(n)\<close> of a count\<close>
  "str_nat n = (if n < 10 then [char_of (48 + n)] else str_nat (n div 10) @ [char_of (48 + n mod 10)])"
  by pat_completeness auto
termination
  by (relation "measure id") auto

declare str_nat.simps [simp del]

section \<open>Files, the log and errors\<close>

text \<open>
  A \<open>pathlib\<close> path is its list of components and whether it is absolute. \<open>Path s\<close> drops
  empty components and \<open>.\<close> components, as \<open>pathlib\<close> does.
\<close>

fun split :: "char \<Rightarrow> string \<Rightarrow> string list" where
  \<comment> \<open>\<open>s.split(sep)\<close>\<close>
  "split sep [] = [[]]"
| "split sep (c # cs) = (if c = sep then [] # split sep cs
     else (case split sep cs of [] \<Rightarrow> [[c]] | w # ws \<Rightarrow> (c # w) # ws))"

fun join :: "string \<Rightarrow> string list \<Rightarrow> string" where
  \<comment> \<open>\<open>sep.join(xs)\<close>\<close>
  "join sep [] = []"
| "join sep [x] = x"
| "join sep (x # y # ys) = x @ sep @ join sep (y # ys)"

record path =
  absolute :: bool
  parts :: "string list"

definition Path :: "string \<Rightarrow> path" where
  "Path s = \<lparr>absolute = prefix ''/'' s, parts = filter (\<lambda>p. p \<noteq> [] \<and> p \<noteq> ''.'') (split (CHR ''/'') s)\<rparr>"

definition path_str :: "path \<Rightarrow> string" where
  \<comment> \<open>\<open>str(p)\<close>\<close>
  "path_str p = (if parts p = [] then (if absolute p then ''/'' else ''.'')
                 else (if absolute p then ''/'' else []) @ join ''/'' (parts p))"

definition joinpath :: "path \<Rightarrow> string \<Rightarrow> path" where
  \<comment> \<open>\<open>p / s\<close>: an absolute right-hand side replaces the left\<close>
  "joinpath p s = (let q = Path s in
     if absolute q then q else \<lparr>absolute = absolute p, parts = parts p @ parts q\<rparr>)"

definition path_name :: "path \<Rightarrow> string" where
  \<comment> \<open>\<open>p.name\<close>\<close>
  "path_name p = (if parts p = [] then [] else last (parts p))"

fun rfind :: "char \<Rightarrow> string \<Rightarrow> nat option" where
  \<comment> \<open>the index of the last occurrence\<close>
  "rfind c [] = None"
| "rfind c (x # xs) = (case rfind c xs of Some i \<Rightarrow> Some (Suc i) | None \<Rightarrow> if x = c then Some 0 else None)"

definition stem :: "path \<Rightarrow> string" where
  \<comment> \<open>\<open>p.stem\<close>: the name without its last suffix\<close>
  "stem p = (let n = path_name p in
     case rfind (CHR ''.'') n of
       None \<Rightarrow> n
     | Some i \<Rightarrow> if 0 < i \<and> i < length n - 1 then take i n else n)"

text \<open>
  The file system maps a path to a file with its text or to a directory. Reading,
  writing and removing fail as the operating system makes them fail on a missing path
  and on a directory. Permissions and missing parent directories are not modelled.
\<close>

datatype node = File string | Dir

datatype py_error =
    FileNotFoundError path
  | IsADirectoryError path
  | FileExistsError path
  | ValueError string
  | HTTPException nat py_error   \<comment> \<open>status code; the detail is \<open>str(e)\<close> of the error caught\<close>

datatype log_entry =
    Info string
  | Error string py_error        \<comment> \<open>\<open>logger.error(f"<text>{str(e)}")\<close>\<close>

record world =
  fs :: "path \<Rightarrow> node option"
  log :: "log_entry list"

type_synonym 'a io = "world \<Rightarrow> (py_error + 'a) \<times> world"

definition io_return :: "'a \<Rightarrow> 'a io" where
  "io_return x w = (Inr x, w)"

definition io_raise :: "py_error \<Rightarrow> 'a io" where
  "io_raise e w = (Inl e, w)"

definition io_bind :: "'a io \<Rightarrow> ('a \<Rightarrow> 'b io) \<Rightarrow> 'b io" where
  \<comment> \<open>one statement after another; an exception skips the rest\<close>
  "io_bind m f w = (case m w of (Inl e, w') \<Rightarrow> (Inl e, w') | (Inr x, w') \<Rightarrow> f x w')"

definition io_try :: "'a io \<Rightarrow> (py_error \<Rightarrow> 'a io) \<Rightarrow> 'a io" where
  \<comment> \<open>\<open>try: m  except Exception as e: h e\<close>\<close>
  "io_try m h w = (case m w of (Inl e, w') \<Rightarrow> h e w' | (Inr x, w') \<Rightarrow> (Inr x, w'))"

definition read_text :: "path \<Rightarrow> string io" where
  "read_text p w = (case fs w p of
       None \<Rightarrow> (Inl (FileNotFoundError p), w)
     | Some Dir \<Rightarrow> (Inl (IsADirectoryError p), w)
     | Some (File t) \<Rightarrow> (Inr t, w))"

definition write_text :: "path \<Rightarrow> string \<Rightarrow> unit io" where
  "write_text p t w = (case fs w p of
       Some Dir \<Rightarrow> (Inl (IsADirectoryError p), w)
     | _ \<Rightarrow> (Inr (), w\<lparr>fs := (fs w)(p \<mapsto> File t)\<rparr>))"

definition unlink :: "path \<Rightarrow> unit io" where
  "unlink p w = (case fs w p of
       None \<Rightarrow> (Inl (FileNotFoundError p), w)
     | Some Dir \<Rightarrow> (Inl (IsADirectoryError p), w)
     | Some (File t) \<Rightarrow> (Inr (), w\<lparr>fs := (fs w)(p := None)\<rparr>))"

definition mkdir :: "path \<Rightarrow> unit io" where
  \<comment> \<open>\<open>p.mkdir(parents=True, exist_ok=True)\<close>\<close>
  "mkdir p w = (case fs w p of
       Some (File t) \<Rightarrow> (Inl (FileExistsError p), w)
     | _ \<Rightarrow> (Inr (), w\<lparr>fs := (fs w)(p \<mapsto> Dir)\<rparr>))"

definition logger_info :: "string \<Rightarrow> unit io" where
  "logger_info msg w = (Inr (), w\<lparr>log := log w @ [Info msg]\<rparr>)"

definition logger_error :: "string \<Rightarrow> py_error \<Rightarrow> unit io" where
  "logger_error msg e w = (Inr (), w\<lparr>log := log w @ [Error msg e]\<rparr>)"

section \<open>design\_optimizer.py\<close>

datatype OptimizationType = PERFORMANCE | AREA | POWER | TIMING

record OptimizationEntry =
  original_metrics :: "(string \<times> pyval) list"
  optimized_metrics :: "(string \<times> pyval) list"
  improvements :: "string list"
  suggested_changes :: "string list"

record OptimizationResult = OptimizationEntry +
  optimization_type :: OptimizationType

text \<open>
  The optimizer object: its file and the text read from it. (The fields of the three
  tool classes have the same names in the source; here they carry the prefixes
  \<open>opt\<close>, \<open>ver\<close> and \<open>doc\<close>.)
\<close>

record DesignOptimizer =
  opt_verilog_file :: path
  opt_verilog_content :: string

definition DesignOptimizer_init :: "string \<Rightarrow> DesignOptimizer io" where
  "DesignOptimizer_init verilog_file =
     io_bind (read_text (Path verilog_file)) (\<lambda>content.
     io_return \<lparr>opt_verilog_file = Path verilog_file, opt_verilog_content = content\<rparr>)"

definition always_posedge_re :: regex where
  \<comment> \<open>\<open>always\s*@\s*\(posedge\s+clk\)\<close>\<close>
  "always_posedge_re = seqs [lits ''always'', Star (Atom Space), lits ''@'', Star (Atom Space),
     lits ''(posedge'', Plus (Atom Space), lits ''clk)'']"

definition if_else_chain_re :: regex where
  \<comment> \<open>\<open>if.*else.*if.*else\<close>\<close>
  "if_else_chain_re = seqs [lits ''if'', Star (Atom Dot), lits ''else'', Star (Atom Dot),
     lits ''if'', Star (Atom Dot), lits ''else'']"

definition sized_reg_re :: regex where
  \<comment> \<open>\<open>reg\s+\[.*?\]\<close>\<close>
  "sized_reg_re = seqs [lits ''reg'', Plus (Atom Space), lits ''['', LazyStar (Atom Dot), lits '']'']"

definition two_wires_re :: regex where
  \<comment> \<open>\<open>wire\s+\[.*?\].*?wire\s+\[.*?\]\<close>\<close>
  "two_wires_re = seqs [lits ''wire'', Plus (Atom Space), lits ''['', LazyStar (Atom Dot), lits '']'',
     LazyStar (Atom Dot),
     lits ''wire'', Plus (Atom Space), lits ''['', LazyStar (Atom Dot), lits '']'']"

definition clock_gating_re :: regex where
  \<comment> \<open>\<open>clock_en|clk_en|gated_clk\<close>\<close>
  "clock_gating_re = Alt (lits ''clock_en'') (Alt (lits ''clk_en'') (lits ''gated_clk''))"

definition enable_re :: regex where
  \<comment> \<open>\<open>enable|en\s*=\<close>\<close>
  "enable_re = Alt (lits ''enable'') (seqs [lits ''en'', Star (Atom Space), lits ''=''])"

definition posedge_clk_re :: regex where
  \<comment> \<open>\<open>@\s*\(posedge\s+clk\)\<close>\<close>
  "posedge_clk_re = seqs [lits ''@'', Star (Atom Space), lits ''(posedge'', Plus (Atom Space), lits ''clk)'']"

definition negedge_rst_re :: regex where
  \<comment> \<open>\<open>negedge\s+rst\<close>\<close>
  "negedge_rst_re = seqs [lits ''negedge'', Plus (Atom Space), lits ''rst'']"

definition nested_ternary_re :: regex where
  \<comment> \<open>\<open>assign.*=.*\?.*:.*\?.*:\<close>\<close>
  "nested_ternary_re = seqs [lits ''assign'', Star (Atom Dot), lits ''='', Star (Atom Dot),
     lits ''?'', Star (Atom Dot), lits '':'', Star (Atom Dot), lits ''?'', Star (Atom Dot), lits '':'']"

definition analyze_performance :: "DesignOptimizer \<Rightarrow> OptimizationResult" where
  "analyze_performance self =
    (let content = opt_verilog_content self;
         improvements = [];
         suggestions = [];
         (improvements, suggestions) =
           (if re_search always_posedge_re content \<noteq> None \<and> re_search if_else_chain_re content \<noteq> None
            then (improvements @ [''Long combinational paths detected''],
                  suggestions @ [''Consider breaking down complex conditional logic''])
            else (improvements, suggestions));
         pipeline_stages = length (re_findall always_posedge_re content);
         (improvements, suggestions) =
           (if pipeline_stages > 0
            then (improvements @ [''Current pipeline depth: '' @ str_nat pipeline_stages],
                  suggestions @ [''Consider pipeline balancing for optimal performance''])
            else (improvements, suggestions))
     in \<lparr>original_metrics = [(''pipeline_depth'', PInt (int pipeline_stages))],
         optimized_metrics = [(''suggested_pipeline_depth'', PInt (int pipeline_stages + 1))],
         improvements = improvements,
         suggested_changes = suggestions,
         optimization_type = PERFORMANCE\<rparr>)"

definition analyze_area :: "DesignOptimizer \<Rightarrow> OptimizationResult" where
  "analyze_area self =
    (let content = opt_verilog_content self;
         improvements = [];
         suggestions = [];
         reg_count = length (re_findall sized_reg_re content);
         (improvements, suggestions) =
           (if reg_count > 0
            then (improvements @ [''Current register count: '' @ str_nat reg_count],
                  suggestions @ [''Consider resource sharing for registers''])
            else (improvements, suggestions));
         (improvements, suggestions) =
           (if re_search two_wires_re content \<noteq> None
            then (improvements @ [''Potential redundant wire declarations''],
                  suggestions @ [''Consider combining wire declarations''])
            else (improvements, suggestions))
     in \<lparr>original_metrics = [(''register_count'', PInt (int reg_count))],
         optimized_metrics = [(''suggested_register_count'', PInt (max 1 (int reg_count - 1)))],
         improvements = improvements,
         suggested_changes = suggestions,
         optimization_type = AREA\<rparr>)"

definition analyze_power :: "DesignOptimizer \<Rightarrow> OptimizationResult" where
  "analyze_power self =
    (let content = opt_verilog_content self;
         improvements = [];
         suggestions = [];
         (improvements, suggestions) =
           (if re_search always_posedge_re content \<noteq> None \<and> re_search clock_gating_re content = None
            then (improvements @ [''No clock gating detected''],
                  suggestions @ [''Consider adding clock gating for power reduction''])
            else (improvements, suggestions));
         (improvements, suggestions) =
           (if re_search sized_reg_re content \<noteq> None \<and> re_search enable_re content = None
            then (improvements @ [''Registers without enable signals''],
                  suggestions @ [''Add enable signals to reduce switching activity''])
            else (improvements, suggestions))
     in \<lparr>original_metrics = [(''has_clock_gating'', PBool False)],
         optimized_metrics = [(''suggested_clock_gating'', PBool True)],
         improvements = improvements,
         suggested_changes = suggestions,
         optimization_type = POWER\<rparr>)"

definition analyze_timing :: "DesignOptimizer \<Rightarrow> OptimizationResult" where
  "analyze_timing self =
    (let content = opt_verilog_content self;
         improvements = [];
         suggestions = [];
         (improvements, suggestions) =
           (if re_search posedge_clk_re content \<noteq> None \<and> re_search negedge_rst_re content = None
            then (improvements @ [''Synchronous reset detected''],
                  suggestions @ [''Consider using asynchronous reset for better timing''])
            else (improvements, suggestions));
         (improvements, suggestions) =
           (if re_search nested_ternary_re content \<noteq> None
            then (improvements @ [''Deep combinational paths detected''],
                  suggestions @ [''Consider breaking down complex assignments''])
            else (improvements, suggestions))
     in \<lparr>original_metrics = [(''has_async_reset'', PBool False)],
         optimized_metrics = [(''suggested_async_reset'', PBool True)],
         improvements = improvements,
         suggested_changes = suggestions,
         optimization_type = TIMING\<rparr>)"

definition generate_optimization_report :: "(string \<times> OptimizationResult) list \<Rightarrow> OptimizationEntry report" where
  "generate_optimization_report results =
     \<lparr>summary = [(''total_improvements'', PInt (int (sum_list (map (\<lambda>r. length (improvements (snd r))) results)))),
                 (''total_suggestions'', PInt (int (sum_list (map (\<lambda>r. length (suggested_changes (snd r))) results))))],
      details = map (\<lambda>r. (fst r, OptimizationEntry.truncate (snd r))) results\<rparr>"

definition optimize_all :: "DesignOptimizer \<Rightarrow> OptimizationEntry report" where
  "optimize_all self = generate_optimization_report
     [(''performance'', analyze_performance self),
      (''area'', analyze_area self),
      (''power'', analyze_power self),
      (''timing'', analyze_timing self)]"

text \<open>The three transform hooks return the code they are given.\<close>

definition add_pipeline_registers :: "string \<Rightarrow> string" where
  "add_pipeline_registers code = code"

definition optimize_resource_usage :: "string \<Rightarrow> string" where
  "optimize_resource_usage code = code"

definition add_clock_gating :: "string \<Rightarrow> string" where
  "add_clock_gating code = code"

definition apply_changes :: "string \<Rightarrow> (string \<Rightarrow> string) \<Rightarrow> string list \<Rightarrow> string \<Rightarrow> string" where
  \<comment> \<open>\<open>for change in changes: if trigger in change.lower(): code = hook(code)\<close>\<close>
  "apply_changes trigger hook changes code =
     fold (\<lambda>change code. if contains trigger (lower change) then hook code else code) changes code"

definition apply_optimizations :: "DesignOptimizer \<Rightarrow> OptimizationEntry report \<Rightarrow> string" where
  "apply_optimizations self report =
    (let optimized_code = opt_verilog_content self;
         optimized_code = (case map_of (details report) ''performance'' of
             None \<Rightarrow> optimized_code
           | Some e \<Rightarrow> apply_changes ''pipeline balancing'' add_pipeline_registers (suggested_changes e) optimized_code);
         optimized_code = (case map_of (details report) ''area'' of
             None \<Rightarrow> optimized_code
           | Some e \<Rightarrow> apply_changes ''resource sharing'' optimize_resource_usage (suggested_changes e) optimized_code);
         optimized_code = (case map_of (details report) ''power'' of
             None \<Rightarrow> optimized_code
           | Some e \<Rightarrow> apply_changes ''clock gating'' add_clock_gating (suggested_changes e) optimized_code)
     in optimized_code)"

section \<open>design\_verifier.py\<close>

datatype VerificationType = FORMAL | FUNCTIONAL | ASSERTION | COVERAGE

record VerificationEntry =
  passed :: bool
  coverage :: real
  issues :: "string list"
  suggestions :: "string list"

record VerificationResult = VerificationEntry +
  verification_type :: VerificationType

record DesignVerifier =
  ver_verilog_file :: path
  ver_testbench_file :: path
  ver_verilog_content :: string
  ver_testbench_content :: string

definition DesignVerifier_init :: "string \<Rightarrow> string \<Rightarrow> DesignVerifier io" where
  "DesignVerifier_init verilog_file testbench_file =
     io_bind (read_text (Path verilog_file)) (\<lambda>verilog_content.
     io_bind (read_text (Path testbench_file)) (\<lambda>testbench_content.
     io_return \<lparr>ver_verilog_file = Path verilog_file, ver_testbench_file = Path testbench_file,
                ver_verilog_content = verilog_content, ver_testbench_content = testbench_content\<rparr>))"

definition property_re :: regex where
  \<comment> \<open>\<open>property\s+\w+\<close>\<close>
  "property_re = seqs [lits ''property'', Plus (Atom Space), Plus (Atom Word)]"

definition assume_re :: regex where
  \<comment> \<open>\<open>assume\s+\w+\<close>\<close>
  "assume_re = seqs [lits ''assume'', Plus (Atom Space), Plus (Atom Word)]"

definition covergroup_re :: regex where
  \<comment> \<open>\<open>covergroup\s+\w+\<close>\<close>
  "covergroup_re = seqs [lits ''covergroup'', Plus (Atom Space), Plus (Atom Word)]"

definition coverpoint_re :: regex where
  \<comment> \<open>\<open>coverpoint\s+\w+\<close>\<close>
  "coverpoint_re = seqs [lits ''coverpoint'', Plus (Atom Space), Plus (Atom Word)]"

definition assert_re :: regex where
  \<comment> \<open>\<open>assert\s+\w+\<close>\<close>
  "assert_re = seqs [lits ''assert'', Plus (Atom Space), Plus (Atom Word)]"

definition temporal_re :: regex where
  \<comment> \<open>\<open>##\d+|@\(posedge\<close>\<close>
  "temporal_re = Alt (seqs [lits ''##'', Plus (Atom Digit)]) (lits ''@(posedge'')"

definition statement_re :: regex where
  \<comment> \<open>\<open>;\<close>\<close>
  "statement_re = lits '';''"

definition covered_statement_re :: regex where
  \<comment> \<open>\<open>assert.*?;|if.*?;|else.*?;\<close>\<close>
  "covered_statement_re =
     Alt (seqs [lits ''assert'', LazyStar (Atom Dot), lits '';''])
    (Alt (seqs [lits ''if'', LazyStar (Atom Dot), lits '';''])
         (seqs [lits ''else'', LazyStar (Atom Dot), lits '';'']))"

definition branch_re :: regex where
  \<comment> \<open>\<open>if|case\<close>\<close>
  "branch_re = Alt (lits ''if'') (lits ''case'')"

definition default_re :: regex where
  \<comment> \<open>\<open>default\s*:\<close>\<close>
  "default_re = seqs [lits ''default'', Star (Atom Space), lits '':'']"

definition verify_formal_properties :: "DesignVerifier \<Rightarrow> VerificationResult" where
  "verify_formal_properties self =
    (let content = ver_verilog_content self;
         issues = [];
         suggestions = [];
         coverage = (0::real);
         (issues, suggestions, coverage) =
           (if re_search property_re content = None
            then (issues @ [''No formal properties defined''],
                  suggestions @ [''Add SVA properties for critical behavior''], 0)
            else (issues, suggestions, min 100 (real (length (re_findall property_re content)) * 20)));
         (issues, suggestions) =
           (if re_search assume_re content = None
            then (issues @ [''No assumptions defined''],
                  suggestions @ [''Add assumptions about input behavior''])
            else (issues, suggestions))
     in \<lparr>passed = (length issues = 0), coverage = coverage, issues = issues, suggestions = suggestions,
         verification_type = FORMAL\<rparr>)"

definition verify_functional_coverage :: "DesignVerifier \<Rightarrow> VerificationResult" where
  "verify_functional_coverage self =
    (let content = ver_testbench_content self;
         issues = [];
         suggestions = [];
         coverage = (0::real);
         (issues, suggestions, coverage) =
           (if re_search covergroup_re content = None
            then (issues @ [''No coverage groups defined''],
                  suggestions @ [''Add covergroups for functional coverage''], coverage)
            else (issues, suggestions, min 100 (real (length (re_findall covergroup_re content)) * 25)));
         (issues, suggestions) =
           (if re_search coverpoint_re content = None
            then (issues @ [''No coverage points defined''],
                  suggestions @ [''Add coverage points for state space exploration''])
            else (issues, suggestions))
     in \<lparr>passed = (length issues = 0), coverage = coverage, issues = issues, suggestions = suggestions,
         verification_type = FUNCTIONAL\<rparr>)"

definition verify_assertions :: "DesignVerifier \<Rightarrow> VerificationResult" where
  "verify_assertions self =
    (let content = ver_testbench_content self;
         issues = [];
         suggestions = [];
         coverage = (0::real);
         (issues, suggestions, coverage) =
           (if re_search assert_re content = None
            then (issues @ [''No assertions defined''],
                  suggestions @ [''Add assertions for design invariants''], coverage)
            else (issues, suggestions, min 100 (real (length (re_findall assert_re content)) * 10)));
         (issues, suggestions) =
           (if re_search temporal_re content = None
            then (issues @ [''No temporal assertions defined''],
                  suggestions @ [''Add temporal assertions for sequential behavior''])
            else (issues, suggestions))
     in \<lparr>passed = (length issues = 0), coverage = coverage, issues = issues, suggestions = suggestions,
         verification_type = ASSERTION\<rparr>)"

text \<open>
  A double holds 53 significant bits. \<open>binary64 y\<close> is the double nearest to \<open>y\<close>, a tie
  going to the even one, which is what the division of two integers and the
  multiplication of two floats return. The range of the exponent is not modelled: no
  count of characters of a text comes near it.
\<close>

function bit_length :: "nat \<Rightarrow> nat" where
  \<comment> \<open>\<open>n.bit_length()\<close>\<close>
  "bit_length n = (if n = 0 then 0 else Suc (bit_length (n div 2)))"
  by pat_completeness auto
termination
  by (relation "measure id") auto

declare bit_length.simps [simp del]

definition exponent2 :: "real \<Rightarrow> int" where
  \<comment> \<open>for \<open>y > 0\<close>, the \<open>e\<close> with \<open>2 ^ e \<le> y < 2 ^ (e + 1)\<close>\<close>
  "exponent2 y = (if 1 \<le> y then int (bit_length (nat \<lfloor>y\<rfloor>)) - 1
                  else - int (bit_length (nat (\<lceil>1 / y\<rceil> - 1))))"

definition pow2 :: "int \<Rightarrow> real" where
  "pow2 e = (if 0 \<le> e then 2 ^ nat e else 1 / 2 ^ nat (- e))"

definition round_half_even :: "real \<Rightarrow> int" where
  "round_half_even y = (let f = \<lfloor>y\<rfloor>; d = y - of_int f in
     if d < 1 / 2 then f else if d > 1 / 2 then f + 1 else if even f then f else f + 1)"

definition binary64 :: "real \<Rightarrow> real" where
  "binary64 y = (if y = 0 then 0
     else let u = pow2 (exponent2 \<bar>y\<bar> - 52) in of_int (round_half_even (y / u)) * u)"

text \<open>
  The low-coverage message prints the coverage with \<open>{coverage:.1f}\<close>: the value of the
  double to one decimal, a tie rounded to the even digit.
\<close>

definition format_1f :: "real \<Rightarrow> string" where
  "format_1f x = (let t = nat (round_half_even (\<bar>x\<bar> * 10)) in
     (if x < 0 then ''-'' else []) @ str_nat (t div 10) @ ''.'' @ str_nat (t mod 10))"

definition verify_code_coverage :: "DesignVerifier \<Rightarrow> VerificationResult" where
  "verify_code_coverage self =
    (let issues = [];
         suggestions = [];
         coverage = (0::real);
         statements = length (re_findall statement_re (ver_verilog_content self));
         covered_statements = length (re_findall covered_statement_re (ver_testbench_content self));
         coverage = (if statements > 0
                     then binary64 (binary64 (real covered_statements / real statements) * 100)
                     else coverage);
         (issues, suggestions) =
           (if coverage < 80
            then (issues @ [''Low code coverage: '' @ format_1f coverage @ ''%''],
                  suggestions @ [''Add test cases to improve code coverage''])
            else (issues, suggestions));
         branches = length (re_findall branch_re (ver_verilog_content self));
         (issues, suggestions) =
           (if branches > 0 \<and> re_search default_re (ver_verilog_content self) = None
            then (issues @ [''Missing default case in case statements''],
                  suggestions @ [''Add default cases for complete branch coverage''])
            else (issues, suggestions))
     in \<lparr>passed = (coverage \<ge> 80), coverage = coverage, issues = issues, suggestions = suggestions,
         verification_type = COVERAGE\<rparr>)"

definition generate_verification_report :: "(string \<times> VerificationResult) list \<Rightarrow> VerificationEntry report" where
  "generate_verification_report results =
     \<lparr>summary = [(''total_issues'', PInt (int (sum_list (map (\<lambda>r. length (issues (snd r))) results)))),
                 (''total_suggestions'', PInt (int (sum_list (map (\<lambda>r. length (suggestions (snd r))) results)))),
                 (''average_coverage'', PFloat (sum_list (map (\<lambda>r. coverage (snd r)) results) / real (length results))),
                 (''all_passed'', PBool (list_all (\<lambda>r. passed (snd r)) results))],
      details = map (\<lambda>r. (fst r, VerificationEntry.truncate (snd r))) results\<rparr>"

definition verify_all :: "DesignVerifier \<Rightarrow> VerificationEntry report" where
  "verify_all self = generate_verification_report
     [(''formal'', verify_formal_properties self),
      (''functional'', verify_functional_coverage self),
      (''assertion'', verify_assertions self),
      (''coverage'', verify_code_coverage self)]"



text \<open>The canned blocks of \<open>generate_assertions\<close> and \<open>generate_coverage_model\<close>.\<close>

definition reset_assertion_text :: string where
  "reset_assertion_text = ''\<newline>            // Reset assertion\<newline>            property reset_assertion;\<newline>                @(posedge clk) reset |-> ##1 (state == IDLE);\<newline>            endproperty\<newline>            assert property(reset_assertion);\<newline>            ''"

definition pipeline_assertion_text :: string where
  "pipeline_assertion_text = ''\<newline>            // Pipeline validity assertion\<newline>            property pipeline_valid;\<newline>                @(posedge clk) disable iff (reset)\<newline>                $stable(valid) |-> ##1 $stable(data);\<newline>            endproperty\<newline>            assert property(pipeline_valid);\<newline>            ''"

definition state_coverage_text :: string where
  "state_coverage_text = ''\<newline>            covergroup state_coverage;\<newline>                state_cp: coverpoint state {\<newline>                    bins states[] = {[0:$]};\<newline>                    bins transitions[] = ([0:$] => [0:$]);\<newline>                }\<newline>            endgroup\<newline>            ''"

definition data_coverage_text :: string where
  "data_coverage_text = ''\<newline>            covergroup data_coverage;\<newline>                data_cp: coverpoint data {\<newline>                    bins zero = {0};\<newline>                    bins small = {[1:10]};\<newline>                    bins large = {[11:$]};\<newline>                }\<newline>            endgroup\<newline>            ''"

definition input_reset_re :: regex where
  \<comment> \<open>\<open>input.*reset\<close>\<close>
  "input_reset_re = seqs [lits ''input'', Star (Atom Dot), lits ''reset'']"

definition generate_assertions :: "DesignVerifier \<Rightarrow> string" where
  "generate_assertions self =
    (let assertions = [];
         assertions = (if re_search input_reset_re (ver_verilog_content self) \<noteq> None
                       then assertions @ [reset_assertion_text] else assertions);
         assertions = (if re_search always_posedge_re (ver_verilog_content self) \<noteq> None
                       then assertions @ [pipeline_assertion_text] else assertions)
     in join ''\<newline>'' assertions)"

definition generate_coverage_model :: "DesignVerifier \<Rightarrow> string" where
  "generate_coverage_model self =
    (let coverage_model = [];
         coverage_model = (if re_search (lits ''state'') (ver_verilog_content self) \<noteq> None
                           then coverage_model @ [state_coverage_text] else coverage_model);
         coverage_model = (if re_search (lits ''data'') (ver_verilog_content self) \<noteq> None
                           then coverage_model @ [data_coverage_text] else coverage_model)
     in join ''\<newline>'' coverage_model)"

section \<open>doc\_generator.py\<close>

text \<open>
  The dictionaries of a parameter, a port and a signal have fixed keys and are records.
\<close>

record ParameterDoc =
  param_name :: string
  param_value :: string
  param_description :: string

record PortDoc =
  port_direction :: string
  port_width :: string
  port_name :: string
  port_description :: string

record SignalDoc =
  signal_type :: string
  signal_width :: string
  signal_name :: string
  signal_description :: string

record ModuleDoc =
  name :: string
  description :: string
  parameters :: "ParameterDoc list"
  ports :: "PortDoc list"
  signals :: "SignalDoc list"
  timing_diagrams :: "string list"
  examples :: "string list"

record DocGenerator =
  doc_verilog_file :: path
  doc_testbench_file :: path
  doc_verilog_content :: string
  doc_testbench_content :: string

definition DocGenerator_init :: "string \<Rightarrow> string \<Rightarrow> DocGenerator io" where
  "DocGenerator_init verilog_file testbench_file =
     io_bind (read_text (Path verilog_file)) (\<lambda>verilog_content.
     io_bind (read_text (Path testbench_file)) (\<lambda>testbench_content.
     io_return \<lparr>doc_verilog_file = Path verilog_file, doc_testbench_file = Path testbench_file,
                doc_verilog_content = verilog_content, doc_testbench_content = testbench_content\<rparr>))"

definition comment_re :: "nat \<Rightarrow> regex" where
  \<comment> \<open>\<open>(?:\s*//\s*(.*))?\<close>, the group being number \<open>n\<close>\<close>
  "comment_re n = Opt (seqs [Star (Atom Space), lits ''//'', Star (Atom Space), Group n (Star (Atom Dot))])"

definition width_re :: "nat \<Rightarrow> regex" where
  \<comment> \<open>\<open>(?:\[([^\]]+)\])?\<close>, the group being number \<open>n\<close>\<close>
  "width_re n = Opt (seqs [lits ''['', Group n (Plus (Atom (NotChar (CHR '']'')))), lits '']''])"

definition module_re :: regex where
  \<comment> \<open>\<open>module\s+(\w+)\<close>\<close>
  "module_re = seqs [lits ''module'', Plus (Atom Space), Group 1 (Plus (Atom Word))]"

definition description_re :: regex where
  \<comment> \<open>\<open>/\*\*(.*?)\*/\<close> with \<open>re.DOTALL\<close>\<close>
  "description_re = seqs [lits ''/**'', Group 1 (LazyStar (Atom AnyChar)), lits ''*/'']"

definition parameter_re :: regex where
  \<comment> \<open>\<open>parameter\s+(\w+)\s*=\s*([^;]+);(?:\s*//\s*(.*))?\<close>\<close>
  "parameter_re = seqs [lits ''parameter'', Plus (Atom Space), Group 1 (Plus (Atom Word)),
     Star (Atom Space), lits ''='', Star (Atom Space), Group 2 (Plus (Atom (NotChar (CHR '';'')))),
     lits '';'', comment_re 3]"

definition port_re :: regex where
  \<comment> \<open>\<open>(input|output|inout)\s+(?:wire|reg)?\s*(?:\[([^\]]+)\])?\s*(\w+)(?:\s*//\s*(.*))?\<close>\<close>
  "port_re = seqs [Group 1 (Alt (lits ''input'') (Alt (lits ''output'') (lits ''inout''))),
     Plus (Atom Space), Opt (Alt (lits ''wire'') (lits ''reg'')), Star (Atom Space), width_re 2,
     Star (Atom Space), Group 3 (Plus (Atom Word)), comment_re 4]"

definition signal_re :: regex where
  \<comment> \<open>\<open>(wire|reg)\s*(?:\[([^\]]+)\])?\s*(\w+)(?:\s*//\s*(.*))?\<close>\<close>
  "signal_re = seqs [Group 1 (Alt (lits ''wire'') (lits ''reg'')), Star (Atom Space), width_re 2,
     Star (Atom Space), Group 3 (Plus (Atom Word)), comment_re 4]"

definition example_re :: regex where
  \<comment> \<open>\<open>// Test case.*?\n(.*?)// End test case\<close> with \<open>re.DOTALL\<close>\<close>
  "example_re = seqs [lits ''// Test case'', LazyStar (Atom AnyChar), lits ''\<newline>'',
     Group 1 (LazyStar (Atom AnyChar)), lits ''// End test case'']"

definition group_text :: "rx_match \<Rightarrow> nat \<Rightarrow> string" where
  \<comment> \<open>\<open>match.group(n)\<close> of a group that takes part in every match of its pattern\<close>
  "group_text m n = (case group m n of Some t \<Rightarrow> t | None \<Rightarrow> [])"

definition group_or :: "rx_match \<Rightarrow> nat \<Rightarrow> string \<Rightarrow> string" where
  \<comment> \<open>\<open>match.group(n) if match.group(n) else d\<close>\<close>
  "group_or m n d = (case group m n of None \<Rightarrow> d | Some t \<Rightarrow> if t = [] then d else t)"

definition group_stripped_or :: "rx_match \<Rightarrow> nat \<Rightarrow> string \<Rightarrow> string" where
  \<comment> \<open>\<open>match.group(n).strip() if match.group(n) else d\<close>\<close>
  "group_stripped_or m n d = (case group m n of None \<Rightarrow> d | Some t \<Rightarrow> if t = [] then d else strip t)"

definition timing_diagram_text :: string where
  "timing_diagram_text = ''```wavedrom\<newline>{signal: [\<newline>  {name: 'clk', wave: 'p....'},\<newline>  {name: 'data', wave: 'x345x'},\<newline>]}\<newline>```''"

definition extract_module_info :: "DocGenerator \<Rightarrow> ModuleDoc" where
  "extract_module_info self =
    (let module_match = re_search module_re (doc_verilog_content self);
         module_name = (case module_match of Some m \<Rightarrow> group_text m 1 | None \<Rightarrow> ''Unknown'');
         desc_match = re_search description_re (doc_verilog_content self);
         description = (case desc_match of Some m \<Rightarrow> strip (group_text m 1)
                                         | None \<Rightarrow> ''No description available'');
         parameters = map (\<lambda>m. \<lparr>param_name = group_text m 1,
                                  param_value = strip (group_text m 2),
                                  param_description = group_stripped_or m 3 ''No description''\<rparr>)
                          (re_finditer parameter_re (doc_verilog_content self));
         ports = map (\<lambda>m. \<lparr>port_direction = group_text m 1,
                             port_width = group_or m 2 ''1'',
                             port_name = group_text m 3,
                             port_description = group_stripped_or m 4 ''No description''\<rparr>)
                     (re_finditer port_re (doc_verilog_content self));
         signals = map (\<lambda>m. \<lparr>signal_type = group_text m 1,
                               signal_width = group_or m 2 ''1'',
                               signal_name = group_text m 3,
                               signal_description = group_stripped_or m 4 ''No description''\<rparr>)
                       (re_finditer signal_re (doc_verilog_content self));
         timing_diagrams = [timing_diagram_text];
         examples = map (\<lambda>m. strip (group_text m 1)) (re_finditer example_re (doc_testbench_content self))
     in \<lparr>name = module_name, description = description, parameters = parameters, ports = ports,
         signals = signals, timing_diagrams = timing_diagrams, examples = examples\<rparr>)"

definition generate_markdown_doc :: "ModuleDoc \<Rightarrow> string" where
  "generate_markdown_doc module_doc =
    (let doc = [''# '' @ name module_doc, ''\<newline>'' @ description module_doc @ ''\<newline>''];
         doc = (if parameters module_doc \<noteq> [] then doc @
                  [''## Parameters'',
                   ''\<newline>| Parameter | Value | Description |'',
                   ''|-----------|--------|-------------|''] @
                  map (\<lambda>param. ''| '' @ param_name param @ '' | '' @ param_value param @ '' | ''
                                 @ param_description param @ '' |'') (parameters module_doc) @
                  [[]]
                else doc);
         doc = (if ports module_doc \<noteq> [] then doc @
                  [''## Ports'',
                   ''\<newline>| Port | Direction | Width | Description |'',
                   ''|------|-----------|--------|-------------|''] @
                  map (\<lambda>port. ''| '' @ port_name port @ '' | '' @ port_direction port @ '' | ''
                                @ port_width port @ '' | '' @ port_description port @ '' |'') (ports module_doc) @
                  [[]]
                else doc);
         doc = (if signals module_doc \<noteq> [] then doc @
                  [''## Internal Signals'',
                   ''\<newline>| Signal | Type | Width | Description |'',
                   ''|--------|------|--------|-------------|''] @
                  map (\<lambda>signal. ''| '' @ signal_name signal @ '' | '' @ signal_type signal @ '' | ''
                                  @ signal_width signal @ '' | '' @ signal_description signal @ '' |'')
                      (signals module_doc) @
                  [[]]
                else doc);
         doc = (if timing_diagrams module_doc \<noteq> [] then doc @
                  [''## Timing Diagrams''] @ timing_diagrams module_doc @ [[]]
                else doc);
         doc = (if examples module_doc \<noteq> [] then doc @
                  [''## Usage Examples''] @
                  concat (map (\<lambda>(i, example).
                                 [''\<newline>### Example '' @ str_nat i, ''```verilog'', example, ''```\<newline>''])
                              (zip [1 ..< Suc (length (examples module_doc))] (examples module_doc)))
                else doc)
     in join ''\<newline>'' doc)"

text \<open>
  The collaborators outside this repository: the generator, which calls a language model
  and writes the design files, the \<open>markdown\<close> library and the \<open>yaml\<close> library.
\<close>

record collaborators =
  generate :: "string \<Rightarrow> string \<Rightarrow> string option \<Rightarrow> bool \<Rightarrow> unit io"
    \<comment> \<open>\<open>VerilogGenerator.generate(description, output_dir, module_name, generate_testbench)\<close>\<close>
  markdown_markdown :: "string \<Rightarrow> string"
  yaml_dump :: "ModuleDoc \<Rightarrow> string"

definition generate_html_doc :: "collaborators \<Rightarrow> string \<Rightarrow> string" where
  "generate_html_doc ext markdown_content = markdown_markdown ext markdown_content"

definition generate_yaml_doc :: "collaborators \<Rightarrow> ModuleDoc \<Rightarrow> string" where
  "generate_yaml_doc ext module_doc = yaml_dump ext module_doc"

definition generate_all :: "collaborators \<Rightarrow> DocGenerator \<Rightarrow> (string \<times> string) list" where
  "generate_all ext self =
    (let module_doc = extract_module_info self;
         markdown_doc = generate_markdown_doc module_doc;
         html_doc = generate_html_doc ext markdown_doc;
         yaml_doc = generate_yaml_doc ext module_doc
     in [(''markdown'', markdown_doc), (''html'', html_doc), (''yaml'', yaml_doc)])"

section \<open>verilog\_ai\_agent.py\<close>

record VerilogAIAgent =
  output_dir :: path

record design_files =
  verilog :: path
  testbench :: path

record optimization_results =
  opt_report :: "OptimizationEntry report"     \<comment> \<open>key \<open>report\<close>\<close>
  optimized_file :: path

record verification_results =
  ver_report :: "VerificationEntry report"     \<comment> \<open>key \<open>report\<close>\<close>
  assertions_file :: path
  coverage_file :: path

text \<open>The final report of a run; the nested dictionaries are flattened.\<close>

record design_result =
  files_original :: design_files
  files_optimized :: path
  files_verification_assertions :: path
  files_verification_coverage :: path
  files_documentation :: "(string \<times> path) list"
  reports_optimization :: "OptimizationEntry report"
  reports_verification :: "VerificationEntry report"

definition generate_design :: "collaborators \<Rightarrow> VerilogAIAgent \<Rightarrow> string \<Rightarrow> string option \<Rightarrow> design_files io" where
  "generate_design ext self descr module_name =
     io_bind (logger_info ''Stage 1: Generating Verilog design...'') (\<lambda>_.
     io_bind (generate ext descr (path_str (output_dir self)) module_name True) (\<lambda>_.
     let base = (case module_name of None \<Rightarrow> ''design'' | Some n \<Rightarrow> if n = [] then ''design'' else n);
         verilog_file = joinpath (output_dir self) (base @ ''.v'');
         testbench_file = joinpath (output_dir self) (base @ ''_tb.sv'')
     in io_return \<lparr>verilog = verilog_file, testbench = testbench_file\<rparr>))"

definition optimize_design :: "VerilogAIAgent \<Rightarrow> path \<Rightarrow> optimization_results io" where
  "optimize_design self verilog_file =
     io_bind (logger_info ''Stage 2: Optimizing design...'') (\<lambda>_.
     io_bind (DesignOptimizer_init (path_str verilog_file)) (\<lambda>optimizer.
     let optimization_report = optimize_all optimizer;
         optimized_code = apply_optimizations optimizer optimization_report;
         optimized_file = joinpath (output_dir self) (stem verilog_file @ ''_optimized.v'')
     in io_bind (write_text optimized_file optimized_code) (\<lambda>_.
        io_return \<lparr>opt_report = optimization_report, optimized_file = optimized_file\<rparr>)))"

definition verify_design :: "VerilogAIAgent \<Rightarrow> path \<Rightarrow> path \<Rightarrow> verification_results io" where
  "verify_design self verilog_file testbench_file =
     io_bind (logger_info ''Stage 3: Verifying design...'') (\<lambda>_.
     io_bind (DesignVerifier_init (path_str verilog_file) (path_str testbench_file)) (\<lambda>verifier.
     let verification_report = verify_all verifier;
         assertions = generate_assertions verifier;
         coverage_model = generate_coverage_model verifier;
         assertions_file = joinpath (output_dir self) (stem verilog_file @ ''_assertions.sv'');
         coverage_file = joinpath (output_dir self) (stem verilog_file @ ''_coverage.sv'')
     in io_bind (write_text assertions_file assertions) (\<lambda>_.
        io_bind (write_text coverage_file coverage_model) (\<lambda>_.
        io_return \<lparr>ver_report = verification_report, assertions_file = assertions_file,
                   coverage_file = coverage_file\<rparr>))))"

fun save_docs :: "path \<Rightarrow> (string \<times> string) list \<Rightarrow> (string \<times> path) list \<Rightarrow> (string \<times> path) list io" where
  \<comment> \<open>the loop over \<open>docs.items()\<close>\<close>
  "save_docs docs_dir [] doc_files = io_return doc_files"
| "save_docs docs_dir ((format_name, content) # docs) doc_files =
     (let file_path = joinpath docs_dir (''documentation.'' @ format_name)
      in io_bind (write_text file_path content) (\<lambda>_.
         save_docs docs_dir docs (doc_files @ [(format_name, file_path)])))"

definition generate_documentation ::
  "collaborators \<Rightarrow> VerilogAIAgent \<Rightarrow> path \<Rightarrow> path \<Rightarrow> (string \<times> path) list io" where
  "generate_documentation ext self verilog_file testbench_file =
     io_bind (logger_info ''Stage 4: Generating documentation...'') (\<lambda>_.
     io_bind (DocGenerator_init (path_str verilog_file) (path_str testbench_file)) (\<lambda>doc_gen.
     let docs = generate_all ext doc_gen;
         docs_dir = joinpath (output_dir self) ''docs''
     in io_bind (mkdir docs_dir) (\<lambda>_.
        save_docs docs_dir docs [])))"

definition process_design :: "collaborators \<Rightarrow> VerilogAIAgent \<Rightarrow> string \<Rightarrow> string option \<Rightarrow> design_result io" where
  "process_design ext self descr module_name =
     io_try
      (io_bind (generate_design ext self descr module_name) (\<lambda>files.
       io_bind (logger_info (''Design generated: '' @ path_str (verilog files))) (\<lambda>_.
       io_bind (logger_info (''Testbench generated: '' @ path_str (testbench files))) (\<lambda>_.
       io_bind (optimize_design self (verilog files)) (\<lambda>optimization_results.
       io_bind (logger_info (''Design optimized: '' @ path_str (optimized_file optimization_results))) (\<lambda>_.
       io_bind (verify_design self (optimized_file optimization_results) (testbench files)) (\<lambda>verification_results.
       io_bind (logger_info ''Design verification completed'') (\<lambda>_.
       io_bind (generate_documentation ext self (optimized_file optimization_results) (testbench files))
         (\<lambda>documentation_files.
       io_bind (logger_info ''Documentation generated'') (\<lambda>_.
       io_return \<lparr>files_original = files,
                  files_optimized = optimized_file optimization_results,
                  files_verification_assertions = assertions_file verification_results,
                  files_verification_coverage = coverage_file verification_results,
                  files_documentation = documentation_files,
                  reports_optimization = opt_report optimization_results,
                  reports_verification = ver_report verification_results\<rparr>))))))))))
      (\<lambda>e. io_bind (logger_error ''Design processing failed: '' e) (\<lambda>_. io_raise e))"

section \<open>mcp\_verilog\_agent.py\<close>

definition verilog_agent :: VerilogAIAgent where
  "verilog_agent = \<lparr>output_dir = Path ''mcp_output''\<rparr>"

text \<open>
  The endpoints \<open>/design/optimize\<close>, \<open>/design/verify\<close> and \<open>/design/document\<close>. (In the
  source they are named as the agent's methods are.)
\<close>

definition mcp_optimize_design :: "string \<Rightarrow> optimization_results io" where
  "mcp_optimize_design verilog_code =
     io_try
      (let temp_file = joinpath (Path ''mcp_output'') ''temp.v''
       in io_bind (write_text temp_file verilog_code) (\<lambda>_.
          io_bind (optimize_design verilog_agent temp_file) (\<lambda>optimization_results.
          io_bind (unlink temp_file) (\<lambda>_.
          io_return optimization_results))))
      (\<lambda>e. io_bind (logger_error ''Design optimization failed: '' e) (\<lambda>_. io_raise (HTTPException 500 e)))"

definition mcp_verify_design :: "string \<Rightarrow> string \<Rightarrow> verification_results io" where
  "mcp_verify_design verilog_code testbench_code =
     io_try
      (let temp_verilog = joinpath (Path ''mcp_output'') ''temp.v'';
           temp_tb = joinpath (Path ''mcp_output'') ''temp_tb.sv''
       in io_bind (write_text temp_verilog verilog_code) (\<lambda>_.
          io_bind (write_text temp_tb testbench_code) (\<lambda>_.
          io_bind (verify_design verilog_agent temp_verilog temp_tb) (\<lambda>verification_results.
          io_bind (unlink temp_verilog) (\<lambda>_.
          io_bind (unlink temp_tb) (\<lambda>_.
          io_return verification_results))))))
      (\<lambda>e. io_bind (logger_error ''Design verification failed: '' e) (\<lambda>_. io_raise (HTTPException 500 e)))"

definition mcp_generate_documentation :: "collaborators \<Rightarrow> string \<Rightarrow> string \<Rightarrow> (string \<times> path) list io" where
  "mcp_generate_documentation ext verilog_code testbench_code =
     io_try
      (let temp_verilog = joinpath (Path ''mcp_output'') ''temp.v'';
           temp_tb = joinpath (Path ''mcp_output'') ''temp_tb.sv''
       in io_bind (write_text temp_verilog verilog_code) (\<lambda>_.
          io_bind (write_text temp_tb testbench_code) (\<lambda>_.
          io_bind (generate_documentation ext verilog_agent temp_verilog temp_tb) (\<lambda>doc_results.
          io_bind (unlink temp_verilog) (\<lambda>_.
          io_bind (unlink temp_tb) (\<lambda>_.
          io_return doc_results))))))
      (\<lambda>e. io_bind (logger_error ''Documentation generation failed: '' e) (\<lambda>_. io_raise (HTTPException 500 e)))"

section \<open>Property declarations and what the formal dimension counts\<close>






text \<open>
  The second is a count of text: scanning from left to right, every place where the text
  \<open>property\<close> is followed by one or more white space characters and one or more word
  characters, the scan going on after the last of these. It does not ask what stands
  before \<open>property\<close> nor whether the place is in a comment.
\<close>

definition after_property :: "string \<Rightarrow> string option" where
  \<comment> \<open>when the text begins with \<open>property\<close>, white space and a word: the text after that word\<close>
  "after_property s = (if prefix ''property'' s then
     (case drop 8 s of
        [] \<Rightarrow> None
      | c # cs \<Rightarrow> if is_space c then
          (case dropWhile is_space cs of
             [] \<Rightarrow> None
           | d # ds \<Rightarrow> if is_word d then Some (dropWhile is_word ds) else None)
        else None)
     else None)"

function property_matches :: "string \<Rightarrow> nat" where
  "property_matches s = (case after_property s of
       None \<Rightarrow> (case s of [] \<Rightarrow> 0 | _ # cs \<Rightarrow> property_matches cs)
     | Some t \<Rightarrow> Suc (if length t < length s then property_matches t else 0))"
  by pat_completeness auto
termination
  by (relation "measure length") auto

declare property_matches.simps [simp del]

section \<open>The end-to-end scenario\<close>

text \<open>The source text of the scenario: a four-bit counter.\<close>

definition counter_source :: string where
  "counter_source = ''module counter(input clk, input rst_n, output reg [3:0] count); always @(posedge clk) count <= count + 1; endmodule''"


section \<open>Properties of the matcher\<close>

lemma finditer_Nil_iff: "re_finditer p s = [] \<longleftrightarrow> re_search p s = None"
proof (induction s)
  case Nil
  show ?case by (subst re_finditer.simps) (simp split: option.splits)
next
  case (Cons c cs)
  show ?case using Cons by (subst re_finditer.simps) (simp split: option.splits)
qed

lemma findall_Nil_iff: "re_findall p s = [] \<longleftrightarrow> re_search p s = None"
  by (simp add: re_findall_def finditer_Nil_iff)



lemma contains_iff: "contains sub s \<longleftrightarrow> (\<exists>i\<le>length s. prefix sub (drop i s))"
proof (induction s)
  case Nil show ?case by simp
next
  case (Cons c cs)
  show ?case
  proof
    assume "contains sub (c # cs)"
    then consider "prefix sub (c # cs)" | "contains sub cs" by auto
    then show "\<exists>i\<le>length (c # cs). prefix sub (drop i (c # cs))"
    proof cases
      case 1 then show ?thesis by (intro exI[of _ 0]) simp
    next
      case 2 then obtain i where "i \<le> length cs" "prefix sub (drop i cs)" using Cons by auto
      then show ?thesis by (intro exI[of _ "Suc i"]) simp
    qed
  next
    assume "\<exists>i\<le>length (c # cs). prefix sub (drop i (c # cs))"
    then obtain i where i: "i \<le> length (c # cs)" "prefix sub (drop i (c # cs))" by blast
    show "contains sub (c # cs)"
    proof (cases i)
      case 0 then show ?thesis using i by simp
    next
      case (Suc j) then show ?thesis using i Cons by auto
    qed
  qed
qed



lemma findall_length_pos_iff: "0 < length (re_findall p s) \<longleftrightarrow> re_search p s \<noteq> None"
  using findall_Nil_iff [of p s] by simp






section \<open>Properties of the verifier\<close>

subsection \<open>Code coverage\<close>

lemma round_half_even_nonneg: "0 \<le> y \<Longrightarrow> 0 \<le> round_half_even y"
  by (auto simp add: round_half_even_def Let_def)

lemma pow2_pos: "0 < pow2 e"
  by (simp add: pow2_def)

lemma binary64_nonneg: "0 \<le> y \<Longrightarrow> 0 \<le> binary64 y"
  using pow2_pos [of "exponent2 \<bar>y\<bar> - 52"]
  by (auto simp add: binary64_def Let_def intro!: mult_nonneg_nonneg round_half_even_nonneg divide_nonneg_pos)

lemma double_200: "binary64 (binary64 2 * 100) = 200"
  by code_simp

lemma double_100: "binary64 (binary64 1 * 100) = 100"
  by code_simp

lemma low_coverage_digits:
  "format_1f (binary64 (binary64 (1 / 2000) * 100)) = ''0.1''"
  "format_1f (binary64 (binary64 (3 / 2000) * 100)) = ''0.1''"
  "format_1f (binary64 (binary64 (1 / 3) * 100)) = ''33.3''"
  by code_simp+

lemma code_coverage_value:
  "coverage (verify_code_coverage v) =
     (if 0 < length (re_findall statement_re (ver_verilog_content v))
      then binary64 (binary64 (real (length (re_findall covered_statement_re (ver_testbench_content v)))
                               / real (length (re_findall statement_re (ver_verilog_content v)))) * 100)
      else 0)"
  by (simp add: verify_code_coverage_def Let_def split: prod.splits)

lemma code_coverage_nonneg: "0 \<le> coverage (verify_code_coverage v)"
  by (simp add: code_coverage_value binary64_nonneg)

lemma code_coverage_no_statements:
  "re_findall statement_re (ver_verilog_content v) = [] \<Longrightarrow> coverage (verify_code_coverage v) = 0"
  by (simp add: code_coverage_value)

lemma code_coverage_passed_iff:
  "passed (verify_code_coverage v) \<longleftrightarrow> 80 \<le> coverage (verify_code_coverage v)"
  by (simp add: verify_code_coverage_def Let_def split: prod.splits)

lemma count_statements_a: "length (re_findall statement_re ''a;'') = 1"
  by code_simp

lemma count_covered_two_ifs: "length (re_findall covered_statement_re ''if b; if c;'') = 2"
  by code_simp

text \<open>
  Claim C1: the coverage of the code-coverage dimension lies in [0, 100], is 0 when the
  source has no \<open>;\<close>, and the dimension passes exactly when the coverage is at least 80.
  The lemmas above give the lower bound, the value without statements and the test for
  \<open>passed\<close>. The upper bound fails: the quotient is not capped, unlike the coverage of the
  other three dimensions. With one \<open>;\<close> in the source and two covered statements in the
  testbench the coverage is 200.
\<close>

theorem code_coverage_above_100:
  "coverage (verify_code_coverage \<lparr>ver_verilog_file = Path ''design.v'', ver_testbench_file = Path ''design_tb.sv'',
      ver_verilog_content = ''a;'', ver_testbench_content = ''if b; if c;''\<rparr>) = 200"
  by (simp add: code_coverage_value count_statements_a count_covered_two_ifs double_200)

subsection \<open>passed and issues\<close>

lemma formal_passed_iff: "passed (verify_formal_properties v) \<longleftrightarrow> issues (verify_formal_properties v) = []"
  by (simp add: verify_formal_properties_def Let_def split: prod.splits)

lemma functional_passed_iff: "passed (verify_functional_coverage v) \<longleftrightarrow> issues (verify_functional_coverage v) = []"
  by (simp add: verify_functional_coverage_def Let_def split: prod.splits)

lemma assertion_passed_iff: "passed (verify_assertions v) \<longleftrightarrow> issues (verify_assertions v) = []"
  by (simp add: verify_assertions_def Let_def split: prod.splits)

lemma code_coverage_issues_Nil: "issues (verify_code_coverage v) = [] \<Longrightarrow> passed (verify_code_coverage v)"
  by (auto simp add: verify_code_coverage_def Let_def split: prod.splits if_splits)

lemma count_covered_one_if: "length (re_findall covered_statement_re ''if x;'') = 1"
  by code_simp

lemma count_statements_if: "length (re_findall statement_re ''if (a) b;'') = 1"
  by code_simp

lemma count_branches_if: "length (re_findall branch_re ''if (a) b;'') = 1"
  by code_simp

lemma no_default_if: "re_search default_re ''if (a) b;'' = None"
  by code_simp

lemma count_branches_a: "length (re_findall branch_re ''a;'') = 0"
  by code_simp

text \<open>
  The code-coverage dimension can pass with a finding: with one \<open>if\<close> statement in the
  source, no \<open>default:\<close>, and one covered statement in the testbench, the coverage is 100
  and the missing-default finding is reported.
\<close>

theorem passed_with_issues_counterexample:
  "passed (verify_code_coverage \<lparr>ver_verilog_file = Path ''design.v'', ver_testbench_file = Path ''design_tb.sv'',
      ver_verilog_content = ''if (a) b;'', ver_testbench_content = ''if x;''\<rparr>)
   \<and> issues (verify_code_coverage \<lparr>ver_verilog_file = Path ''design.v'', ver_testbench_file = Path ''design_tb.sv'',
      ver_verilog_content = ''if (a) b;'', ver_testbench_content = ''if x;''\<rparr>)
       = [''Missing default case in case statements'']"
  by (simp add: verify_code_coverage_def Let_def count_covered_one_if count_statements_if count_branches_if no_default_if
      double_100 del: re_search.simps)

text \<open>
  Claim C2, as amended: in the formal, functional and assertion dimensions \<open>passed\<close> holds
  exactly when the dimension has no issues. In the code-coverage dimension \<open>passed\<close> holds
  exactly when the coverage is at least 80; no issues there implies \<open>passed\<close>.
\<close>

theorem passed_and_issues:
  "(passed (verify_formal_properties v) \<longleftrightarrow> issues (verify_formal_properties v) = []) \<and>
   (passed (verify_functional_coverage v) \<longleftrightarrow> issues (verify_functional_coverage v) = []) \<and>
   (passed (verify_assertions v) \<longleftrightarrow> issues (verify_assertions v) = []) \<and>
   (passed (verify_code_coverage v) \<longleftrightarrow> 80 \<le> coverage (verify_code_coverage v)) \<and>
   (issues (verify_code_coverage v) = [] \<longrightarrow> passed (verify_code_coverage v))"
  using formal_passed_iff functional_passed_iff assertion_passed_iff code_coverage_passed_iff
    code_coverage_issues_Nil by blast

text \<open>A source without branches, fully covered: no issues, and the dimension passes.\<close>

theorem passed_and_issues_witness:
  "issues (verify_code_coverage \<lparr>ver_verilog_file = Path ''design.v'', ver_testbench_file = Path ''design_tb.sv'',
      ver_verilog_content = ''a;'', ver_testbench_content = ''if x;''\<rparr>) = []
   \<and> passed (verify_code_coverage \<lparr>ver_verilog_file = Path ''design.v'', ver_testbench_file = Path ''design_tb.sv'',
      ver_verilog_content = ''a;'', ver_testbench_content = ''if x;''\<rparr>)"
proof -
  have "issues (verify_code_coverage \<lparr>ver_verilog_file = Path ''design.v'', ver_testbench_file = Path ''design_tb.sv'',
      ver_verilog_content = ''a;'', ver_testbench_content = ''if x;''\<rparr>) = []"
    by (simp add: verify_code_coverage_def Let_def count_covered_one_if count_statements_a count_branches_a
        double_100 del: re_search.simps)
  then show ?thesis
    using passed_and_issues [of "\<lparr>ver_verilog_file = Path ''design.v'', ver_testbench_file = Path ''design_tb.sv'',
      ver_verilog_content = ''a;'', ver_testbench_content = ''if x;''\<rparr>"]
    by blast
qed

section \<open>Properties of the optimizer\<close>

lemma apply_changes_id: "(\<And>c. hook c = c) \<Longrightarrow> apply_changes trigger hook changes code = code"
  unfolding apply_changes_def by (induction changes arbitrary: code) simp_all

lemma apply_optimizations_unchanged: "apply_optimizations self report = opt_verilog_content self"
  by (simp add: apply_optimizations_def Let_def apply_changes_id add_pipeline_registers_def
      optimize_resource_usage_def add_clock_gating_def split: option.splits)

text \<open>
  Claim C3: when no suggestion of the report contains \<open>pipeline balancing\<close>,
  \<open>resource sharing\<close> or \<open>clock gating\<close>, \<open>apply_optimizations\<close> returns the source text
  unchanged. (By \<open>apply_optimizations_unchanged\<close> it does so for every report, the three
  hooks being pass-through.)
\<close>

theorem apply_optimizations_identity:
  "\<forall>e \<in> snd ` set (details report). \<forall>c \<in> set (suggested_changes e).
      \<not> contains ''pipeline balancing'' c \<and> \<not> contains ''resource sharing'' c \<and> \<not> contains ''clock gating'' c
   \<Longrightarrow> apply_optimizations self report = opt_verilog_content self"
  by (rule apply_optimizations_unchanged)

text \<open>A report whose only suggestion is about wire declarations.\<close>

theorem apply_optimizations_identity_witness:
  "apply_optimizations \<lparr>opt_verilog_file = Path ''design.v'', opt_verilog_content = ''module m; endmodule''\<rparr>
     \<lparr>summary = [(''total_improvements'', PInt 1), (''total_suggestions'', PInt 1)],
      details = [(''area'', \<lparr>original_metrics = [(''register_count'', PInt 0)],
                             optimized_metrics = [(''suggested_register_count'', PInt 1)],
                             improvements = [''Potential redundant wire declarations''],
                             suggested_changes = [''Consider combining wire declarations'']\<rparr>)]\<rparr>
   = ''module m; endmodule''"
  using apply_optimizations_identity [of
     "\<lparr>summary = [(''total_improvements'', PInt 1), (''total_suggestions'', PInt 1)],
      details = [(''area'', \<lparr>original_metrics = [(''register_count'', PInt 0)],
                             optimized_metrics = [(''suggested_register_count'', PInt 1)],
                             improvements = [''Potential redundant wire declarations''],
                             suggested_changes = [''Consider combining wire declarations'']\<rparr>)]\<rparr>"
     "\<lparr>opt_verilog_file = Path ''design.v'', opt_verilog_content = ''module m; endmodule''\<rparr>"]
  by simp

text \<open>
  Claim C10: for every source text the power dimension reports \<open>has_clock_gating = False\<close>
  and \<open>suggested_clock_gating = True\<close>, and the timing dimension reports
  \<open>has_async_reset = False\<close>; these metrics are constants, and they reach the report of
  \<open>optimize_all\<close> as they are.
\<close>

theorem constant_metrics:
  "original_metrics (analyze_power self) = [(''has_clock_gating'', PBool False)] \<and>
   optimized_metrics (analyze_power self) = [(''suggested_clock_gating'', PBool True)] \<and>
   original_metrics (analyze_timing self) = [(''has_async_reset'', PBool False)] \<and>
   map_of (details (optimize_all self)) ''power'' = Some (OptimizationEntry.truncate (analyze_power self)) \<and>
   map_of (details (optimize_all self)) ''timing'' = Some (OptimizationEntry.truncate (analyze_timing self))"
  by (simp add: analyze_power_def analyze_timing_def Let_def optimize_all_def generate_optimization_report_def
      split: prod.splits)

section \<open>The verification report\<close>


section \<open>More properties of the verifier\<close>

subsection \<open>Formal properties\<close>









lemma after_property_shorter: "after_property s = Some t \<Longrightarrow> length t < length s"
proof -
  assume a: "after_property s = Some t"
  then have p: "prefix ''property'' s" by (simp add: after_property_def split: if_splits)
  then obtain r where s: "s = ''property'' @ r" by (auto simp: prefix_def)
  from a s obtain c cs d ds where r: "r = c # cs" "dropWhile is_space cs = d # ds" "t = dropWhile is_word ds"
    by (auto simp add: after_property_def split: if_splits list.splits)
  have "length (dropWhile is_word ds) \<le> length ds" by (rule length_dropWhile_le)
  moreover have "length (dropWhile is_space cs) \<le> length cs" by (rule length_dropWhile_le)
  ultimately show ?thesis using s r by simp
qed

lemma property_matches_unfold:
  "property_matches s = (case after_property s of
       None \<Rightarrow> (case s of [] \<Rightarrow> 0 | _ # cs \<Rightarrow> property_matches cs)
     | Some t \<Rightarrow> Suc (property_matches t))"
  by (subst property_matches.simps) (auto split: option.splits dest: after_property_shorter)















section \<open>The counter scenario\<close>

lemma counter_always: "length (re_findall always_posedge_re counter_source) = 1"
  by code_simp

lemma counter_always_search: "re_search always_posedge_re counter_source \<noteq> None"
  using counter_always findall_length_pos_iff [of always_posedge_re counter_source] by simp

lemma counter_no_gating: "re_search clock_gating_re counter_source = None"
  by code_simp

lemma counter_sized_reg: "re_search sized_reg_re counter_source \<noteq> None"
  by code_simp

lemma counter_no_enable: "re_search enable_re counter_source = None"
  by code_simp

lemma counter_posedge: "re_search posedge_clk_re counter_source \<noteq> None"
  by code_simp

lemma counter_no_negedge: "re_search negedge_rst_re counter_source = None"
  by code_simp

lemma counter_performance:
  "original_metrics (analyze_performance \<lparr>opt_verilog_file = Path ''design.v'', opt_verilog_content = counter_source\<rparr>) = [(''pipeline_depth'', PInt 1)]"
  by (simp add: analyze_performance_def Let_def counter_always split: prod.splits)

lemma counter_power:
  "improvements (analyze_power \<lparr>opt_verilog_file = Path ''design.v'', opt_verilog_content = counter_source\<rparr>)
     = [''No clock gating detected'', ''Registers without enable signals'']"
  using counter_always_search counter_no_gating counter_sized_reg counter_no_enable
  by (simp add: analyze_power_def Let_def split: prod.splits)

lemma counter_timing:
  "''Synchronous reset detected'' \<in> set (improvements (analyze_timing \<lparr>opt_verilog_file = Path ''design.v'', opt_verilog_content = counter_source\<rparr>))"
  using counter_posedge counter_no_negedge
  by (simp add: analyze_timing_def Let_def split: prod.splits)

lemma no_assert_issue:
  "re_findall assert_re (ver_testbench_content v) = [] \<Longrightarrow>
     ''No assertions defined'' \<in> set (issues (verify_assertions v)) \<and> \<not> passed (verify_assertions v)"
  by (simp add: verify_assertions_def Let_def findall_Nil_iff split: prod.splits)

lemma no_covergroup_issue:
  "re_findall covergroup_re (ver_testbench_content v) = [] \<Longrightarrow>
     ''No coverage groups defined'' \<in> set (issues (verify_functional_coverage v))"
  by (simp add: verify_functional_coverage_def Let_def findall_Nil_iff split: prod.splits)

lemma verify_all_details:
  "map_of (details (verify_all v)) ''functional'' = Some (VerificationEntry.truncate (verify_functional_coverage v))"
  "map_of (details (verify_all v)) ''assertion'' = Some (VerificationEntry.truncate (verify_assertions v))"
  by (simp_all add: verify_all_def generate_verification_report_def)

lemma verify_all_passed:
  "map_of (summary (verify_all v)) ''all_passed'' =
     Some (PBool (passed (verify_formal_properties v) \<and> passed (verify_functional_coverage v)
                  \<and> passed (verify_assertions v) \<and> passed (verify_code_coverage v)))"
  by (simp add: verify_all_def generate_verification_report_def)

lemma optimize_all_details:
  "map_of (details (optimize_all self)) ''performance'' = Some (OptimizationEntry.truncate (analyze_performance self))"
  "map_of (details (optimize_all self)) ''power'' = Some (OptimizationEntry.truncate (analyze_power self))"
  "map_of (details (optimize_all self)) ''timing'' = Some (OptimizationEntry.truncate (analyze_timing self))"
  by (simp_all add: optimize_all_def generate_optimization_report_def)

lemma truncate_fields:
  "issues (VerificationEntry.truncate r) = issues r"
  "improvements (OptimizationEntry.truncate q) = improvements q"
  "original_metrics (OptimizationEntry.truncate q) = original_metrics q"
  by (simp_all add: VerificationEntry.truncate_def OptimizationEntry.truncate_def)

text \<open>
  Claim C8: for the counter source and any testbench without assertions and covergroups
  (no match of \<open>assert\s+\w+\<close> and of \<open>covergroup\s+\w+\<close>), the verification report has
  \<open>all_passed = False\<close>, the assertion dimension reports \<open>No assertions defined\<close> and the
  functional dimension \<open>No coverage groups defined\<close>; the optimization report has pipeline
  depth 1 in the performance dimension, \<open>No clock gating detected\<close> and
  \<open>Registers without enable signals\<close> in the power dimension, and
  \<open>Synchronous reset detected\<close> in the timing dimension.
\<close>

theorem counter_scenario:
  assumes "re_findall assert_re tb = []" and "re_findall covergroup_re tb = []"
  shows "map_of (summary (verify_all \<lparr>ver_verilog_file = Path ''design.v'', ver_testbench_file = Path ''design_tb.sv'',
      ver_verilog_content = counter_source, ver_testbench_content = tb\<rparr>)) ''all_passed''
           = Some (PBool False) \<and>
         (\<exists>e. map_of (details (verify_all \<lparr>ver_verilog_file = Path ''design.v'', ver_testbench_file = Path ''design_tb.sv'',
      ver_verilog_content = counter_source, ver_testbench_content = tb\<rparr>)) ''assertion''
                 = Some e \<and> ''No assertions defined'' \<in> set (issues e)) \<and>
         (\<exists>e. map_of (details (verify_all \<lparr>ver_verilog_file = Path ''design.v'', ver_testbench_file = Path ''design_tb.sv'',
      ver_verilog_content = counter_source, ver_testbench_content = tb\<rparr>)) ''functional''
                 = Some e \<and> ''No coverage groups defined'' \<in> set (issues e)) \<and>
         (\<exists>e. map_of (details (optimize_all \<lparr>opt_verilog_file = Path ''design.v'', opt_verilog_content = counter_source\<rparr>)) ''performance'' = Some e \<and>
              map_of (original_metrics e) ''pipeline_depth'' = Some (PInt 1)) \<and>
         (\<exists>e. map_of (details (optimize_all \<lparr>opt_verilog_file = Path ''design.v'', opt_verilog_content = counter_source\<rparr>)) ''power'' = Some e \<and>
              ''No clock gating detected'' \<in> set (improvements e) \<and>
              ''Registers without enable signals'' \<in> set (improvements e)) \<and>
         (\<exists>e. map_of (details (optimize_all \<lparr>opt_verilog_file = Path ''design.v'', opt_verilog_content = counter_source\<rparr>)) ''timing'' = Some e \<and>
              ''Synchronous reset detected'' \<in> set (improvements e))"
proof -
  let ?v = "\<lparr>ver_verilog_file = Path ''design.v'', ver_testbench_file = Path ''design_tb.sv'',
      ver_verilog_content = counter_source, ver_testbench_content = tb\<rparr>"
  have a: "''No assertions defined'' \<in> set (issues (verify_assertions ?v))" "\<not> passed (verify_assertions ?v)"
    using no_assert_issue [of ?v] assms by simp_all
  have f: "''No coverage groups defined'' \<in> set (issues (verify_functional_coverage ?v))"
    using no_covergroup_issue [of ?v] assms by simp
  show ?thesis
    using a f counter_timing
    by (simp add: verify_all_passed verify_all_details optimize_all_details truncate_fields
        counter_performance counter_power)
qed

lemma tb_no_assert: "re_findall assert_re ''module counter_tb; endmodule'' = []"
  by code_simp

lemma tb_no_covergroup: "re_findall covergroup_re ''module counter_tb; endmodule'' = []"
  by code_simp

text \<open>A testbench that is an empty module.\<close>

theorem counter_scenario_witness:
  "map_of (summary (verify_all \<lparr>ver_verilog_file = Path ''design.v'', ver_testbench_file = Path ''design_tb.sv'',
      ver_verilog_content = counter_source,
       ver_testbench_content = ''module counter_tb; endmodule''\<rparr>)) ''all_passed'' = Some (PBool False)"
  using counter_scenario [OF tb_no_assert tb_no_covergroup] by blast

section \<open>Documentation extraction\<close>

lemma counter_module_name:
  "name (extract_module_info \<lparr>doc_verilog_file = Path ''design.v'', doc_testbench_file = Path ''design_tb.sv'',
      doc_verilog_content = counter_source, doc_testbench_content = []\<rparr>) = ''counter''"
  by code_simp

lemma counter_ports:
  "map port_name (ports (extract_module_info \<lparr>doc_verilog_file = Path ''design.v'', doc_testbench_file = Path ''design_tb.sv'',
      doc_verilog_content = counter_source, doc_testbench_content = []\<rparr>)) = [''clk'', ''rst_n'', ''count'']"
  by code_simp

text \<open>
  Claim C9: extraction reads nothing but the source text and the testbench text of its
  object and changes neither, so two extractions from the same pair of texts give
  descriptors that are equal in every field, whatever files the texts were read from.
\<close>

theorem extraction_deterministic:
  assumes "doc_verilog_content g1 = doc_verilog_content g2"
    and "doc_testbench_content g1 = doc_testbench_content g2"
  shows "extract_module_info g1 = extract_module_info g2"
  using assms by (simp add: extract_module_info_def)

text \<open>The counter source and a testbench, read from two different pairs of files.\<close>

theorem extraction_deterministic_witness:
  "extract_module_info \<lparr>doc_verilog_file = Path ''mcp_output/temp.v'', doc_testbench_file = Path ''mcp_output/temp_tb.sv'',
      doc_verilog_content = counter_source, doc_testbench_content = ''module counter_tb; endmodule''\<rparr>
   = extract_module_info \<lparr>doc_verilog_file = Path ''test_output/counter_optimized.v'',
      doc_testbench_file = Path ''test_output/counter_tb.sv'',
      doc_verilog_content = counter_source, doc_testbench_content = ''module counter_tb; endmodule''\<rparr>"
  by (rule extraction_deterministic) simp_all

section \<open>The pipeline\<close>

lemma optimize_design_logs:
  "Info ''Stage 2: Optimizing design...'' \<in> set (log (snd (optimize_design self verilog_file w)))"
  by (simp add: optimize_design_def io_bind_def logger_info_def DesignOptimizer_init_def read_text_def
      write_text_def io_return_def Let_def split: option.splits node.splits prod.splits sum.splits)

lemma save_docs_log: "log (snd (save_docs docs_dir docs doc_files w)) = log w"
  by (induction docs_dir docs doc_files arbitrary: w rule: save_docs.induct)
     (simp_all add: io_return_def io_bind_def write_text_def Let_def split: option.splits node.splits)

lemma generate_documentation_logs:
  "Info ''Stage 4: Generating documentation...'' \<in>
     set (log (snd (generate_documentation ext self verilog_file testbench_file w)))"
  by (simp add: generate_documentation_def io_bind_def logger_info_def DocGenerator_init_def read_text_def
      mkdir_def io_return_def Let_def save_docs_log split: option.splits node.splits prod.splits sum.splits)

lemma verify_design_logs:
  "Info ''Stage 3: Verifying design...'' \<in> set (log (snd (verify_design self verilog_file testbench_file w)))"
  by (simp add: verify_design_def io_bind_def logger_info_def DesignVerifier_init_def read_text_def
      write_text_def io_return_def Let_def split: option.splits node.splits prod.splits sum.splits)

text \<open>
  Claim C6: when the generator raises \<open>e\<close> (called after the stage has logged its start),
  \<open>process_design\<close> raises the same \<open>e\<close> and returns no report. The world it leaves is
  the one the generator left, with one more log entry, the error: nothing was written
  and no later stage has logged its start, as every one of them does first when invoked
  (\<open>optimize_design_logs\<close>, \<open>verify_design_logs\<close>, \<open>generate_documentation_logs\<close>).
\<close>

theorem generation_failure_aborts:
  assumes "generate ext descr (path_str (output_dir self)) module_name True
             (w\<lparr>log := log w @ [Info ''Stage 1: Generating Verilog design...'']\<rparr>) = (Inl e, w')"
  shows "process_design ext self descr module_name w
           = (Inl e, w'\<lparr>log := log w' @ [Error ''Design processing failed: '' e]\<rparr>)"
  using assms
  by (simp add: process_design_def generate_design_def io_try_def io_bind_def logger_info_def
      logger_error_def io_raise_def)

text \<open>A generator that raises \<open>ValueError\<close>, in an empty file system.\<close>

theorem generation_failure_aborts_witness:
  "process_design
     \<lparr>generate = (\<lambda>descr output_dir module_name generate_testbench.
                     io_raise (ValueError ''No valid design plan generated'')),
      markdown_markdown = (\<lambda>text. text), yaml_dump = (\<lambda>module_doc. [])\<rparr>
     \<lparr>output_dir = Path ''test_output''\<rparr> ''a counter'' None \<lparr>fs = Map.empty, log = []\<rparr>
   = (Inl (ValueError ''No valid design plan generated''),
      \<lparr>fs = Map.empty,
       log = [Info ''Stage 1: Generating Verilog design...'',
              Error ''Design processing failed: '' (ValueError ''No valid design plan generated'')]\<rparr>)"
  using generation_failure_aborts [of
     "\<lparr>generate = (\<lambda>descr output_dir module_name generate_testbench.
                     io_raise (ValueError ''No valid design plan generated'')),
      markdown_markdown = (\<lambda>text. text), yaml_dump = (\<lambda>module_doc. [])\<rparr>"
     "''a counter''" "\<lparr>output_dir = Path ''test_output''\<rparr>" None "\<lparr>fs = Map.empty, log = []\<rparr>"
     "ValueError ''No valid design plan generated''"
     "\<lparr>fs = Map.empty, log = [Info ''Stage 1: Generating Verilog design...'']\<rparr>"]
  by (simp add: io_raise_def)

section \<open>Temporary files of the endpoints\<close>

lemma temp_paths:
  "joinpath (Path ''mcp_output'') ''temp.v'' = \<lparr>absolute = False, parts = [''mcp_output'', ''temp.v'']\<rparr>"
  "Path ''mcp_output/temp_optimized.v'' = \<lparr>absolute = False, parts = [''mcp_output'', ''temp_optimized.v'']\<rparr>"
  "Path (path_str \<lparr>absolute = False, parts = [''mcp_output'', ''temp.v'']\<rparr>)
     = \<lparr>absolute = False, parts = [''mcp_output'', ''temp.v'']\<rparr>"
  "joinpath (output_dir verilog_agent) (stem \<lparr>absolute = False, parts = [''mcp_output'', ''temp.v'']\<rparr> @ ''_optimized.v'')
     = \<lparr>absolute = False, parts = [''mcp_output'', ''temp_optimized.v'']\<rparr>"
  by code_simp+

text \<open>
  Claim C7: the temporary files of an endpoint are removed when the stage succeeds and
  when it raises. On success they are (\<open>temp_file_removed_on_success\<close>, below). On failure
  they are not: the \<open>unlink\<close> follows the stage call inside the \<open>try\<close> block, and the
  handler only logs and raises. When a directory is in the place of the optimized file,
  writing it fails, the endpoint raises \<open>HTTPException\<close> 500 and \<open>temp.v\<close> stays.
\<close>

theorem temp_file_left_on_failure:
  "fst (mcp_optimize_design ''module m; endmodule''
          \<lparr>fs = Map.empty(Path ''mcp_output/temp_optimized.v'' \<mapsto> Dir), log = []\<rparr>)
     = Inl (HTTPException 500 (IsADirectoryError (Path ''mcp_output/temp_optimized.v''))) \<and>
   fs (snd (mcp_optimize_design ''module m; endmodule''
          \<lparr>fs = Map.empty(Path ''mcp_output/temp_optimized.v'' \<mapsto> Dir), log = []\<rparr>))
      (joinpath (Path ''mcp_output'') ''temp.v'') = Some (File ''module m; endmodule'')"
  by (simp add: mcp_optimize_design_def optimize_design_def io_try_def io_bind_def logger_info_def
      logger_error_def io_raise_def io_return_def DesignOptimizer_init_def read_text_def write_text_def
      unlink_def Let_def temp_paths apply_optimizations_unchanged)

lemma temp_file_removed_on_success:
  assumes "mcp_optimize_design verilog_code w = (Inr r, w')"
  shows "fs w' (joinpath (Path ''mcp_output'') ''temp.v'') = None"
  using assms
  by (auto simp add: mcp_optimize_design_def optimize_design_def io_try_def io_bind_def logger_info_def
      logger_error_def io_raise_def io_return_def DesignOptimizer_init_def read_text_def write_text_def
      unlink_def Let_def temp_paths apply_optimizations_unchanged
      split: option.splits node.splits prod.splits sum.splits if_splits)

end
